theory Spec2Isabelle
  imports Complex_Main
begin

section \<open>Numeric values\<close>

text \<open>
  The program computes on numpy float64 arrays. A value is either finite or one of the
  three non-finite values of IEEE 754. Finite values are idealised as reals: rounding and
  overflow are left out, and the two zeros are not told apart (a zero divisor counts as
  positive zero, which is what \<open>m - m\<close> yields). Division by zero does not raise in numpy:
  it yields an infinity or NaN, and that is what \<open>fdiv\<close> does.
\<close>

datatype fval = Fin real | PInf | NInf | NaN

datatype error = ValueError | TypeError

fun fneg :: "fval \<Rightarrow> fval" where
  "fneg (Fin a) = Fin (- a)"
| "fneg PInf = NInf"
| "fneg NInf = PInf"
| "fneg NaN = NaN"

fun fadd :: "fval \<Rightarrow> fval \<Rightarrow> fval" where
  "fadd (Fin a) (Fin b) = Fin (a + b)"
| "fadd NaN _ = NaN"
| "fadd _ NaN = NaN"
| "fadd PInf NInf = NaN"
| "fadd NInf PInf = NaN"
| "fadd PInf _ = PInf"
| "fadd _ PInf = PInf"
| "fadd NInf _ = NInf"
| "fadd _ NInf = NInf"

definition fsub :: "fval \<Rightarrow> fval \<Rightarrow> fval" where
  "fsub a b = fadd a (fneg b)"

text \<open>The product of an infinity with a finite value: NaN at zero, else the sign rule.\<close>

definition inf_times :: "bool \<Rightarrow> real \<Rightarrow> fval" where
  "inf_times positive b =
     (if b = 0 then NaN else if (0 < b) = positive then PInf else NInf)"

fun fmul :: "fval \<Rightarrow> fval \<Rightarrow> fval" where
  "fmul (Fin a) (Fin b) = Fin (a * b)"
| "fmul NaN _ = NaN"
| "fmul _ NaN = NaN"
| "fmul PInf (Fin b) = inf_times True b"
| "fmul NInf (Fin b) = inf_times False b"
| "fmul (Fin a) PInf = inf_times True a"
| "fmul (Fin a) NInf = inf_times False a"
| "fmul PInf PInf = PInf"
| "fmul NInf NInf = PInf"
| "fmul PInf NInf = NInf"
| "fmul NInf PInf = NInf"

fun fdiv :: "fval \<Rightarrow> fval \<Rightarrow> fval" where
  "fdiv (Fin a) (Fin b) =
     (if b = 0 then (if a = 0 then NaN else if 0 < a then PInf else NInf)
      else Fin (a / b))"
| "fdiv NaN _ = NaN"
| "fdiv _ NaN = NaN"
| "fdiv (Fin a) PInf = Fin 0"
| "fdiv (Fin a) NInf = Fin 0"
| "fdiv PInf (Fin b) = (if 0 \<le> b then PInf else NInf)"
| "fdiv NInf (Fin b) = (if 0 \<le> b then NInf else PInf)"
| "fdiv PInf PInf = NaN"
| "fdiv PInf NInf = NaN"
| "fdiv NInf PInf = NaN"
| "fdiv NInf NInf = NaN"

text \<open>\<open>v ** 2\<close> on a float64 array squares each element.\<close>

definition fsq :: "fval \<Rightarrow> fval" where
  "fsq v = fmul v v"

text \<open>\<open>a < b\<close> on floats: every comparison with NaN is false.\<close>

fun fless :: "fval \<Rightarrow> fval \<Rightarrow> bool" where
  "fless (Fin a) (Fin b) = (a < b)"
| "fless NaN _ = False"
| "fless _ NaN = False"
| "fless PInf _ = False"
| "fless _ NInf = False"
| "fless NInf _ = True"
| "fless (Fin a) PInf = True"

section \<open>Python builtins on arrays\<close>

text \<open>
  \<open>max\<close>, \<open>min\<close> and \<open>sum\<close> are the Python builtins (the module imports none of them
  from numpy). \<open>max\<close> keeps the first item and replaces it by a later item that compares
  greater; \<open>min\<close> likewise with less; both raise ValueError on an empty sequence.
  \<open>sum\<close> starts from 0 and adds from the left.
\<close>

fun py_max_from :: "fval \<Rightarrow> fval list \<Rightarrow> fval" where
  "py_max_from m [] = m"
| "py_max_from m (v # vs) = py_max_from (if fless m v then v else m) vs"

definition py_max :: "fval list \<Rightarrow> error + fval" where
  "py_max xs = (case xs of [] \<Rightarrow> Inl ValueError | v # vs \<Rightarrow> Inr (py_max_from v vs))"

fun py_min_from :: "fval \<Rightarrow> fval list \<Rightarrow> fval" where
  "py_min_from m [] = m"
| "py_min_from m (v # vs) = py_min_from (if fless v m then v else m) vs"

definition py_min :: "fval list \<Rightarrow> error + fval" where
  "py_min xs = (case xs of [] \<Rightarrow> Inl ValueError | v # vs \<Rightarrow> Inr (py_min_from v vs))"

definition py_sum :: "fval list \<Rightarrow> fval" where
  "py_sum vs = foldl fadd (Fin 0) vs"

section \<open>numpy elementwise operations\<close>

text \<open>
  A binary operation on two one-dimensional arrays: elementwise on equal lengths, an
  array of length one is broadcast, any other pair of lengths raises ValueError.
\<close>

definition np_broadcast ::
  "(fval \<Rightarrow> fval \<Rightarrow> fval) \<Rightarrow> fval list \<Rightarrow> fval list \<Rightarrow> error + fval list" where
  "np_broadcast f a b =
     (if length a = length b then Inr (map2 f a b)
      else if length a = 1 then Inr (map (f (hd a)) b)
      else if length b = 1 then Inr (map (\<lambda>v. f v (hd b)) a)
      else Inl ValueError)"

text \<open>
  An operand may be absent (Python's \<open>None\<close>). numpy then runs the operation on objects,
  element by element, and the first element raises TypeError; on an empty array there is
  no element and the result is an empty array.
\<close>

definition np_binop ::
  "(fval \<Rightarrow> fval \<Rightarrow> fval) \<Rightarrow> fval list option \<Rightarrow> fval list option \<Rightarrow> error + fval list" where
  "np_binop f a b =
     (case (a, b) of
        (Some u, Some v) \<Rightarrow> np_broadcast f u v
      | (Some u, None) \<Rightarrow> (if u = [] then Inr [] else Inl TypeError)
      | (None, Some v) \<Rightarrow> (if v = [] then Inr [] else Inl TypeError)
      | (None, None) \<Rightarrow> Inl TypeError)"

section \<open>The posterior object\<close>

text \<open>
  The fields of \<open>SpectroPosterior\<close> (\<open>x\<close>, \<open>y\<close>, \<open>sigma\<close>, \<open>c1\<close>, \<open>c2\<close>) carry the prefix
  \<open>sp_\<close>. The wavelengths are an array; intensity and errors are an array or \<open>None\<close>.
\<close>

record SpectroPosterior =
  sp_x :: "fval list"
  sp_y :: "fval list option"
  sp_sigma :: "fval list option"
  sp_c1 :: fval
  sp_c2 :: fval

definition init :: "fval list \<Rightarrow> fval list option \<Rightarrow> fval list option \<Rightarrow> SpectroPosterior" where
  "init wavelength intensity errors =
     \<lparr>sp_x = wavelength, sp_y = intensity, sp_sigma = errors,
      sp_c1 = Fin 422, sp_c2 = Fin 428\<rparr>"

text \<open>
  One Lorentzian term of the forward model at one array element:
  \<open>(A / (pi*w)) / (1 + ((x - c)/w)**2)\<close>.
\<close>

definition peak :: "fval \<Rightarrow> fval \<Rightarrow> fval \<Rightarrow> fval \<Rightarrow> fval" where
  "peak A w c v =
     fdiv (fdiv A (fmul (Fin pi) w)) (fadd (Fin 1) (fsq (fdiv (fsub v c) w)))"

text \<open>
  \<open>forward_model\<close>: unpacking \<open>theta\<close> raises ValueError unless it has six components;
  the two peaks are computed before \<open>max(x)\<close> and \<open>min(x)\<close>, which raise on an empty
  array. The three summands are arrays of the length of \<open>x\<close>. The components of
  \<open>theta\<close> are float64 scalars, as the sampler passes them, so \<open>A / (pi*w)\<close> at a zero width
  is an infinity or NaN. With Python numbers in \<open>theta\<close> that division raises
  ZeroDivisionError instead, which is not modelled: the two readings agree exactly when
  both widths are non-zero, and every theorem of the last section that states what
  \<open>forward_model\<close> returns assumes so. The range \<open>max(x) - min(x)\<close> is a float64 scalar in both readings, so
  a zero range yields an infinity or NaN and no exception.
\<close>

definition forward_model :: "SpectroPosterior \<Rightarrow> fval list \<Rightarrow> fval list \<Rightarrow> error + fval list" where
  "forward_model self x theta =
     (case theta of
        [A1, w1, A2, w2, b0, b1] \<Rightarrow>
          (let peak_1 = map (peak A1 w1 (sp_c1 self)) x;
               peak_2 = map (peak A2 w2 (sp_c2 self)) x
           in case py_max x of
                Inl e \<Rightarrow> Inl e
              | Inr mx \<Rightarrow>
                 (case py_min x of
                    Inl e \<Rightarrow> Inl e
                  | Inr mn \<Rightarrow>
                     (let d = fdiv (fsub b1 b0) (fsub mx mn);
                          background = map (\<lambda>v. fadd (fmul d v) (fsub b0 (fmul d mn))) x
                      in Inr (map2 fadd (map2 fadd peak_1 peak_2) background))))
      | _ \<Rightarrow> Inl ValueError)"

definition prior :: "SpectroPosterior \<Rightarrow> fval list \<Rightarrow> fval" where
  "prior self theta = Fin 0"

definition likelihood :: "SpectroPosterior \<Rightarrow> fval list \<Rightarrow> error + fval" where
  "likelihood self theta =
     (case forward_model self (sp_x self) theta of
        Inl e \<Rightarrow> Inl e
      | Inr fm \<Rightarrow>
         (case np_binop fsub (sp_y self) (Some fm) of
            Inl e \<Rightarrow> Inl e
          | Inr r \<Rightarrow>
             (case np_binop fdiv (Some r) (sp_sigma self) of
                Inl e \<Rightarrow> Inl e
              | Inr q \<Rightarrow> Inr (fmul (Fin (- (1 / 2))) (py_sum (map fsq q))))))"

text \<open>The call operator \<open>__call__\<close>.\<close>

definition call :: "SpectroPosterior \<Rightarrow> fval list \<Rightarrow> error + fval" where
  "call self theta =
     (case likelihood self theta of
        Inl e \<Rightarrow> Inl e
      | Inr l \<Rightarrow> Inr (fadd l (prior self theta)))"

text \<open>Whether a call ended in an exception.\<close>

definition raises :: "error + 'a \<Rightarrow> bool" where
  "raises r = (case r of Inl e \<Rightarrow> True | Inr v \<Rightarrow> False)"

section \<open>The specification's formulas\<close>

text \<open>
  The formulas below follow the words of the specification, over the reals: a Lorentzian
  peak, the straight line through \<open>(lo, b0)\<close> and \<open>(hi, b1)\<close>, the prediction at every
  point of \<open>xs\<close> with the centers 422 and 428, and the sum of squared normalised
  residuals. The theorems compare the program with them.
\<close>

definition spec_peak :: "real \<Rightarrow> real \<Rightarrow> real \<Rightarrow> real \<Rightarrow> real" where
  "spec_peak A w c xi = (A / (pi * w)) / (1 + ((xi - c) / w)\<^sup>2)"

definition spec_background :: "real \<Rightarrow> real \<Rightarrow> real \<Rightarrow> real \<Rightarrow> real \<Rightarrow> real" where
  "spec_background b0 b1 lo hi xi =
     (let d = (b1 - b0) / (hi - lo) in d * xi + (b0 - d * lo))"

definition spec_prediction :: "real list \<Rightarrow> real list \<Rightarrow> real list" where
  "spec_prediction xs th =
     map (\<lambda>v. spec_peak (th ! 0) (th ! 1) 422 v + spec_peak (th ! 2) (th ! 3) 428 v
            + spec_background (th ! 4) (th ! 5) (Min (set xs)) (Max (set xs)) v) xs"

definition spec_chi2 :: "real list \<Rightarrow> real list \<Rightarrow> real list \<Rightarrow> real" where
  "spec_chi2 ys ms sg = (\<Sum>i<length ms. ((ys ! i - ms ! i) / sg ! i)\<^sup>2)"

section \<open>Finite inputs, constant wavelengths, the residual sum\<close>

lemma fsub_Fin [simp]: "fsub (Fin a) (Fin b) = Fin (a - b)"
  by (simp add: fsub_def)

lemma fsq_Fin [simp]: "fsq (Fin a) = Fin (a\<^sup>2)"
  by (simp add: fsq_def power2_eq_square)

lemma py_max_from_Fin: "py_max_from (Fin m) (map Fin xs) = Fin (fold max xs m)"
  by (induction xs arbitrary: m) (auto simp: max_def)

lemma py_min_from_Fin: "py_min_from (Fin m) (map Fin xs) = Fin (fold min xs m)"
  by (induction xs arbitrary: m) (auto simp: min_def)

lemma py_max_Fin: "xs \<noteq> [] \<Longrightarrow> py_max (map Fin xs) = Inr (Fin (Max (set xs)))"
  by (cases xs) (simp_all add: py_max_def py_max_from_Fin Max.set_eq_fold [symmetric])

lemma py_min_Fin: "xs \<noteq> [] \<Longrightarrow> py_min (map Fin xs) = Inr (Fin (Min (set xs)))"
  by (cases xs) (simp_all add: py_min_def py_min_from_Fin Min.set_eq_fold [symmetric])

lemma peak_Fin: "w \<noteq> 0 \<Longrightarrow> peak (Fin A) (Fin w) (Fin c) (Fin v) = Fin (spec_peak A w c v)"
proof -
  assume w: "w \<noteq> 0"
  have "1 + ((v - c) / w)\<^sup>2 > 0"
    by (rule add_pos_nonneg) simp_all
  then have "1 + ((v - c) / w)\<^sup>2 \<noteq> 0" by simp
  with w show ?thesis
    by (simp add: peak_def spec_peak_def)
qed

lemma map2_same: "map2 f (map g xs) (map h xs) = map (\<lambda>v. f (g v) (h v)) xs"
  by (induction xs) simp_all

lemma forward_model_Fin:
  assumes "w1 \<noteq> 0" "w2 \<noteq> 0" "xs \<noteq> []" "Min (set xs) < Max (set xs)"
    and "sp_c1 self = Fin c1" "sp_c2 self = Fin c2"
  shows "forward_model self (map Fin xs) (map Fin [A1, w1, A2, w2, b0, b1]) =
     Inr (map (\<lambda>v. Fin (spec_peak A1 w1 c1 v + spec_peak A2 w2 c2 v
            + spec_background b0 b1 (Min (set xs)) (Max (set xs)) v)) xs)"
  using assms
  by (simp add: forward_model_def py_max_Fin py_min_Fin peak_Fin map2_same
      spec_background_def Let_def comp_def)

lemma foldl_fadd_Fin: "foldl fadd (Fin a) (map Fin rs) = Fin (a + sum_list rs)"
  by (induction rs arbitrary: a) (simp_all add: algebra_simps)

lemma py_sum_Fin: "py_sum (map Fin rs) = Fin (sum_list rs)"
  by (simp add: py_sum_def foldl_fadd_Fin)

lemma map2_fsub_Fin: "map2 fsub (map Fin a) (map Fin b) = map Fin (map2 (-) a b)"
  by (induction a b rule: list_induct2') simp_all

lemma map2_fdiv_Fin:
  "\<forall>s\<in>set b. s \<noteq> 0 \<Longrightarrow> map2 fdiv (map Fin a) (map Fin b) = map Fin (map2 (/) a b)"
  by (induction a b rule: list_induct2') simp_all

lemma map_fsq_Fin: "map fsq (map Fin a) = map Fin (map (\<lambda>v. v\<^sup>2) a)"
  by simp

lemma sum_list_chi2:
  assumes "length ys = length ms" "length sg = length ms"
  shows "sum_list (map (\<lambda>v. v\<^sup>2) (map2 (/) (map2 (-) ys ms) sg)) = spec_chi2 ys ms sg"
proof -
  have "sum_list (map (\<lambda>v. v\<^sup>2) (map2 (/) (map2 (-) ys ms) sg))
      = (\<Sum>i = 0..<length ms. (map (\<lambda>v. v\<^sup>2) (map2 (/) (map2 (-) ys ms) sg)) ! i)"
    using assms by (simp add: sum_list_sum_nth)
  also have "\<dots> = (\<Sum>i = 0..<length ms. ((ys ! i - ms ! i) / sg ! i)\<^sup>2)"
    using assms by (intro sum.cong) simp_all
  finally show ?thesis
    by (simp add: spec_chi2_def lessThan_atLeast0)
qed

lemma likelihood_Fin:
  assumes fm: "forward_model self (map Fin xs) theta = Inr (map Fin ms)"
    and x: "sp_x self = map Fin xs"
    and y: "sp_y self = Some (map Fin ys)"
    and s: "sp_sigma self = Some (map Fin sg)"
    and len: "length ys = length ms" "length sg = length ms"
    and nz: "\<forall>s\<in>set sg. s \<noteq> 0"
  shows "likelihood self theta = Inr (Fin (- (1 / 2) * spec_chi2 ys ms sg))"
proof -
  define rs where "rs = map2 (-) ys ms"
  define qs where "qs = map2 (/) rs sg"
  have "map2 fsub (map Fin ys) (map Fin ms) = map Fin rs"
    unfolding rs_def by (rule map2_fsub_Fin)
  then have r: "np_binop fsub (sp_y self) (Some (map Fin ms)) = Inr (map Fin rs)"
    using len by (simp add: y np_binop_def np_broadcast_def)
  have "length rs = length sg"
    using len by (simp add: rs_def)
  moreover have "map2 fdiv (map Fin rs) (map Fin sg) = map Fin qs"
    unfolding qs_def by (rule map2_fdiv_Fin [OF nz])
  ultimately have q: "np_binop fdiv (Some (map Fin rs)) (sp_sigma self) = Inr (map Fin qs)"
    by (simp add: s np_binop_def np_broadcast_def)
  have "py_sum (map fsq (map Fin qs)) = Fin (spec_chi2 ys ms sg)"
    unfolding map_fsq_Fin py_sum_Fin qs_def rs_def sum_list_chi2 [OF len] ..
  then show ?thesis
    unfolding likelihood_def x fm by (simp only: r q sum.case fmul.simps)
qed

lemma init_sel [simp]:
  "sp_x (init a b c) = a" "sp_y (init a b c) = b" "sp_sigma (init a b c) = c"
  "sp_c1 (init a b c) = Fin 422" "sp_c2 (init a b c) = Fin 428"
  by (simp_all add: init_def)

lemma length_spec_prediction [simp]: "length (spec_prediction xs th) = length xs"
  by (simp add: spec_prediction_def)

lemma length6E:
  assumes "length (th :: 'a list) = 6"
  obtains a b c d e f where "th = [a, b, c, d, e, f]"
proof -
  from assms obtain a t1 where "th = a # t1" "length t1 = 5" by (cases th) auto
  moreover then obtain b t2 where "t1 = b # t2" "length t2 = 4" by (cases t1) auto
  moreover then obtain c t3 where "t2 = c # t3" "length t3 = 3" by (cases t2) auto
  moreover then obtain d t4 where "t3 = d # t4" "length t4 = 2" by (cases t3) auto
  moreover then obtain e t5 where "t4 = e # t5" "length t5 = 1" by (cases t4) auto
  moreover then obtain f where "t5 = [f]" by (cases t5) auto
  ultimately show ?thesis using that by blast
qed

lemma forward_model_valid:
  assumes "length th = 6" "th ! 1 \<noteq> 0" "th ! 3 \<noteq> 0" "xs \<noteq> []" "Min (set xs) < Max (set xs)"
  shows "forward_model (init wl inten errs) (map Fin xs) (map Fin th)
     = Inr (map Fin (spec_prediction xs th))"
proof -
  from assms(1) obtain A1 w1 A2 w2 b0 b1 where th: "th = [A1, w1, A2, w2, b0, b1]"
    by (rule length6E)
  from assms(2,3) have "w1 \<noteq> 0" "w2 \<noteq> 0" by (simp_all add: th)
  then show ?thesis
    using forward_model_Fin [of w1 w2 xs "init wl inten errs" 422 428 A1 A2 b0 b1] assms(4,5)
    by (simp add: th spec_prediction_def comp_def)
qed

lemma likelihood_valid:
  assumes th: "length th = 6" "th ! 1 \<noteq> 0" "th ! 3 \<noteq> 0"
    and xs: "xs \<noteq> []" "Min (set xs) < Max (set xs)"
    and len: "length ys = length xs" "length sg = length xs"
    and nz: "\<forall>s\<in>set sg. s \<noteq> 0"
  shows "likelihood (init (map Fin xs) (Some (map Fin ys)) (Some (map Fin sg))) (map Fin th)
     = Inr (Fin (- (1 / 2) * spec_chi2 ys (spec_prediction xs th) sg))"
  by (rule likelihood_Fin [where xs = xs])
     (simp_all add: forward_model_valid [OF th xs] len nz)

lemma forward_model_Inr_length:
  "forward_model self x theta = Inr fm \<Longrightarrow> length fm = length x \<and> x \<noteq> []"
  by (auto simp: forward_model_def py_max_def Let_def split: list.splits sum.splits)

lemma forward_model_returns:
  assumes "x \<noteq> []" "length theta = 6"
  shows "\<exists>fm. forward_model self x theta = Inr fm"
proof -
  from assms(2) obtain A1 w1 A2 w2 b0 b1 where "theta = [A1, w1, A2, w2, b0, b1]"
    by (rule length6E)
  moreover from assms(1) obtain v vs where "x = v # vs" by (cases x) auto
  ultimately show ?thesis
    by (simp add: forward_model_def py_max_def py_min_def Let_def)
qed

lemma likelihood_no_data:
  assumes "sp_y self = None"
  shows "likelihood self theta =
     (case forward_model self (sp_x self) theta of Inl e \<Rightarrow> Inl e | Inr fm \<Rightarrow> Inl TypeError)"
  using assms forward_model_Inr_length [of self "sp_x self" theta]
  by (auto simp: likelihood_def np_binop_def split: sum.splits)

lemma fadd_NaN_right [simp]: "fadd a NaN = NaN"
  by (cases a) simp_all

lemma background_NaN:
  "fadd (fmul (fdiv (Fin a) (Fin 0)) (Fin m)) (fsub (Fin b) (fmul (fdiv (Fin a) (Fin 0)) (Fin m))) = NaN"
  by (simp add: inf_times_def fsub_def)

lemma Min_eq_Max_all:
  assumes "xs \<noteq> []" "Min (set xs) = Max (set xs)" "v \<in> set xs"
  shows "v = Min (set (xs :: real list))"
proof -
  have "Min (set xs) \<le> v" "v \<le> Max (set xs)"
    using assms(3) by simp_all
  with assms(2) show ?thesis by simp
qed

lemma forward_model_constant_x:
  assumes "xs \<noteq> []" "Min (set xs) = Max (set xs)"
  shows "forward_model self (map Fin xs) (map Fin [A1, w1, A2, w2, b0, b1])
     = Inr (replicate (length xs) NaN)"
proof -
  let ?m = "Min (set xs)"
  let ?d = "fdiv (Fin (b1 - b0)) (Fin 0)"
  have "map2 fadd (map2 fadd (map (peak (Fin A1) (Fin w1) (sp_c1 self)) (map Fin xs))
            (map (peak (Fin A2) (Fin w2) (sp_c2 self)) (map Fin xs)))
          (map (\<lambda>v. fadd (fmul ?d v) (fsub (Fin b0) (fmul ?d (Fin ?m)))) (map Fin xs))
      = map (\<lambda>v. fadd (fadd (peak (Fin A1) (Fin w1) (sp_c1 self) (Fin v))
                         (peak (Fin A2) (Fin w2) (sp_c2 self) (Fin v)))
               (fadd (fmul ?d (Fin v)) (fsub (Fin b0) (fmul ?d (Fin ?m))))) xs"
    unfolding map_map map2_same by (simp add: comp_def)
  also have "\<dots> = map (\<lambda>v. NaN) xs"
  proof (rule map_cong [OF refl])
    fix v assume "v \<in> set xs"
    then have "v = ?m" by (rule Min_eq_Max_all [OF assms])
    then show "fadd (fadd (peak (Fin A1) (Fin w1) (sp_c1 self) (Fin v))
                         (peak (Fin A2) (Fin w2) (sp_c2 self) (Fin v)))
               (fadd (fmul ?d (Fin v)) (fsub (Fin b0) (fmul ?d (Fin ?m)))) = NaN"
      by (simp only: background_NaN fadd_NaN_right)
  qed
  also have "\<dots> = replicate (length xs) NaN"
    by (simp add: map_replicate_const)
  finally show ?thesis
    using assms by (simp add: forward_model_def py_max_Fin py_min_Fin Let_def)
qed

lemma chi2_nonneg: "0 \<le> spec_chi2 ys ms sg"
  unfolding spec_chi2_def by (rule sum_nonneg) simp

lemma chi2_zero_iff:
  assumes "length ys = length ms" "length sg = length ms" "\<forall>s\<in>set sg. s \<noteq> 0"
  shows "spec_chi2 ys ms sg = 0 \<longleftrightarrow> ys = ms"
proof -
  have "spec_chi2 ys ms sg = 0 \<longleftrightarrow> (\<forall>i\<in>{..<length ms}. ((ys ! i - ms ! i) / sg ! i)\<^sup>2 = 0)"
    unfolding spec_chi2_def by (rule sum_nonneg_eq_0_iff) simp_all
  also have "\<dots> \<longleftrightarrow> (\<forall>i<length ms. ys ! i = ms ! i)"
    using assms by (auto simp: all_set_conv_all_nth)
  also have "\<dots> \<longleftrightarrow> ys = ms"
    using assms(1) by (simp add: list_eq_iff_nth_eq)
  finally show ?thesis .
qed

lemma chi2_scale_sigma:
  assumes "length sg = length ms"
  shows "spec_chi2 ys ms (map (\<lambda>s. k * s) sg) = spec_chi2 ys ms sg / k\<^sup>2"
proof -
  have "spec_chi2 ys ms (map (\<lambda>s. k * s) sg)
      = (\<Sum>i<length ms. ((ys ! i - ms ! i) / sg ! i)\<^sup>2 / k\<^sup>2)"
    unfolding spec_chi2_def using assms
    by (intro sum.cong refl) (simp add: power_divide power_mult_distrib)
  then show ?thesis
    by (simp add: spec_chi2_def sum_divide_distrib)
qed

lemma chi2_scale_both:
  assumes "length ys = length ms" "length sg = length ms" "k \<noteq> 0"
  shows "spec_chi2 (map2 (\<lambda>m y. m + (y - m) / k) ms ys) ms (map (\<lambda>s. s / k) sg)
       = spec_chi2 ys ms sg"
  unfolding spec_chi2_def using assms
  by (intro sum.cong refl) simp

lemma map2_replicate_right:
  "length u = n \<Longrightarrow> map2 f u (replicate n c) = map (\<lambda>v. f v c) u"
  by (induction u arbitrary: n) auto

lemma map2_replicate_left:
  "length u = n \<Longrightarrow> map2 f (replicate n c) u = map (f c) u"
  by (induction u arbitrary: n) auto

lemma foldl_fadd_NaN: "foldl fadd NaN vs = NaN"
  by (induction vs) simp_all

lemma py_sum_NaN: "0 < n \<Longrightarrow> py_sum (replicate n NaN) = NaN"
  by (cases n) (simp_all add: py_sum_def foldl_fadd_NaN)

lemma likelihood_NaN:
  assumes fm: "forward_model self (sp_x self) theta = Inr (replicate n NaN)"
    and n: "0 < n"
    and y: "sp_y self = Some u" "length u = n"
    and s: "sp_sigma self = Some v" "length v = n"
  shows "likelihood self theta = Inr NaN"
proof -
  have "map2 fsub u (replicate n NaN) = replicate n NaN"
    using y(2) by (simp add: map2_replicate_right fsub_def map_replicate_const)
  then have r: "np_binop fsub (sp_y self) (Some (replicate n NaN)) = Inr (replicate n NaN)"
    using y by (simp add: np_binop_def np_broadcast_def)
  have "map (fdiv NaN) v = replicate (length v) NaN"
    by (induction v) simp_all
  then have "map2 fdiv (replicate n NaN) v = replicate n NaN"
    using s(2) by (simp add: map2_replicate_left)
  then have q: "np_binop fdiv (Some (replicate n NaN)) (sp_sigma self) = Inr (replicate n NaN)"
    using s by (simp add: np_binop_def np_broadcast_def)
  have "py_sum (map fsq (replicate n NaN)) = NaN"
    using n by (simp add: fsq_def py_sum_NaN)
  then show ?thesis
    unfolding likelihood_def fm by (simp only: r q sum.case fmul.simps)
qed

lemma example_forward_model:
  "forward_model (init wl inten errs) (map Fin [0, 1]) (map Fin [0, 1, 0, 1, 0, b1])
     = Inr (map Fin [0, b1])"
  by (simp add: forward_model_def py_max_def py_min_def peak_def)

lemma example_likelihood:
  "likelihood (init (map Fin [0, 1]) (Some (map Fin [y0, y1])) (Some (map Fin [1, 2])))
      (map Fin [0, 1, 0, 1, 0, 1]) = Inr (Fin (- (1 / 2) * (y0\<^sup>2 + ((y1 - 1) / 2)\<^sup>2)))"
  using example_forward_model [of "map Fin [0, 1]" "Some (map Fin [y0, y1])" "Some (map Fin [1, 2])" 1]
  by (simp add: likelihood_def np_binop_def np_broadcast_def py_sum_def)

section \<open>The claims\<close>

text \<open>
  Claim C1. For a parameter vector \<open>(A1, w1, A2, w2, b0, b1)\<close> with non-zero widths and a
  non-empty array \<open>x\<close> of finite values with \<open>min(x) < max(x)\<close>, \<open>forward_model\<close> returns an
  array of the length of \<open>x\<close> whose \<open>i\<close>-th element is the sum of the two Lorentzian peaks
  with centers 422 and 428 and of the line \<open>d * x[i] + (b0 - d * min(x))\<close>, where
  \<open>d = (b1 - b0) / (max(x) - min(x))\<close>.
\<close>

theorem forward_model_prediction:
  assumes "w1 \<noteq> 0" "w2 \<noteq> 0" "xs \<noteq> []" "Min (set xs) < Max (set xs)"
  shows "\<exists>ys. forward_model (init wl inten errs) (map Fin xs) (map Fin [A1, w1, A2, w2, b0, b1]) = Inr ys
     \<and> length ys = length xs
     \<and> (\<forall>i<length xs. ys ! i =
           Fin ((A1 / (pi * w1)) / (1 + ((xs ! i - 422) / w1)\<^sup>2)
              + (A2 / (pi * w2)) / (1 + ((xs ! i - 428) / w2)\<^sup>2)
              + (b1 - b0) / (Max (set xs) - Min (set xs)) * xs ! i
              + (b0 - (b1 - b0) / (Max (set xs) - Min (set xs)) * Min (set xs))))"
  using forward_model_valid [of "[A1, w1, A2, w2, b0, b1]" xs wl inten errs] assms
  by (simp add: spec_prediction_def spec_peak_def spec_background_def Let_def)

theorem forward_model_prediction_witness:
  "\<exists>ys. forward_model (init (map Fin [410, 440]) None None) (map Fin [410, 440])
          (map Fin [1000, 2, 400, 3 / 2, 35, 25]) = Inr ys
     \<and> length ys = 2
     \<and> ys ! 0 = Fin (500 / (37 * pi) + 160 / (87 * pi) + 35)
     \<and> ys ! 1 = Fin (250 / (41 * pi) + 160 / (39 * pi) + 25)"
proof -
  have h: "(2::real) \<noteq> 0" "(3 / 2 :: real) \<noteq> 0" "[410, 440 :: real] \<noteq> []"
    "Min (set [410, 440 :: real]) < Max (set [410, 440])"
    by simp_all
  from forward_model_prediction [OF h, of "map Fin [410, 440]" None None 1000 400 35 25]
  obtain ys where ys: "forward_model (init (map Fin [410, 440]) None None) (map Fin [410, 440])
          (map Fin [1000, 2, 400, 3 / 2, 35, 25]) = Inr ys" "length ys = 2"
     and nth: "\<forall>i<Suc (Suc 0). ys ! i =
           Fin ((1000 / (pi * 2)) / (1 + (([410, 440] ! i - 422) / 2)\<^sup>2)
              + (400 / (pi * (3 / 2))) / (1 + (([410, 440] ! i - 428) / (3 / 2))\<^sup>2)
              + (25 - 35) / (Max (set [410, 440]) - Min (set [410, 440])) * [410, 440] ! i
              + (35 - (25 - 35) / (Max (set [410, 440]) - Min (set [410, 440])) * Min (set [410, 440])))"
    by auto
  have "ys ! 0 = Fin (500 / (37 * pi) + 160 / (87 * pi) + 35)"
    using nth [rule_format, of 0] by (simp add: field_simps)
  moreover have "ys ! 1 = Fin (250 / (41 * pi) + 160 / (39 * pi) + 25)"
    using nth [rule_format, of 1] by (simp add: field_simps)
  ultimately show ?thesis using ys by simp
qed

text \<open>
  Claim C2. For non-zero widths, \<open>min(x) < max(x)\<close> and an observation set of equal lengths
  with non-zero errors, \<open>likelihood\<close> returns \<open>-0.5\<close> times the sum over \<open>i\<close> of
  \<open>((y[i] - m[i]) / sigma[i])^2\<close>, where \<open>m\<close> is the array that \<open>forward_model\<close> returns on
  the wavelengths held by the object.
\<close>

theorem likelihood_formula:
  assumes "w1 \<noteq> 0" "w2 \<noteq> 0" "xs \<noteq> []" "Min (set xs) < Max (set xs)"
    and "length ys = length xs" "length sg = length xs" "\<forall>s\<in>set sg. s \<noteq> 0"
  shows "\<exists>ms. forward_model (init (map Fin xs) (Some (map Fin ys)) (Some (map Fin sg)))
               (map Fin xs) (map Fin [A1, w1, A2, w2, b0, b1]) = Inr (map Fin ms)
     \<and> likelihood (init (map Fin xs) (Some (map Fin ys)) (Some (map Fin sg)))
          (map Fin [A1, w1, A2, w2, b0, b1])
        = Inr (Fin (- (1 / 2) * (\<Sum>i<length xs. ((ys ! i - ms ! i) / sg ! i)\<^sup>2)))"
proof -
  let ?th = "[A1, w1, A2, w2, b0, b1]"
  have th: "length ?th = 6" "?th ! 1 \<noteq> 0" "?th ! 3 \<noteq> 0"
    using assms(1,2) by simp_all
  show ?thesis
    using forward_model_valid [OF th assms(3,4)] likelihood_valid [OF th assms(3-7)]
    by (intro exI [of _ "spec_prediction xs ?th"]) (simp add: spec_chi2_def)
qed

theorem likelihood_formula_witness:
  "likelihood (init (map Fin [0, 1]) (Some (map Fin [1, 3])) (Some (map Fin [1, 2])))
      (map Fin [0, 1, 0, 1, 0, 1]) = Inr (Fin (- 1))"
proof -
  have h: "(1::real) \<noteq> 0" "(1::real) \<noteq> 0" "[0, 1 :: real] \<noteq> []"
    "Min (set [0, 1 :: real]) < Max (set [0, 1])"
    "length [1, 3 :: real] = length [0, 1 :: real]"
    "length [1, 2 :: real] = length [0, 1 :: real]"
    "\<forall>s\<in>set [1, 2 :: real]. s \<noteq> 0"
    by simp_all
  from likelihood_formula [OF h, of 0 0 0 1]
  obtain ms where fm: "forward_model (init (map Fin [0, 1]) (Some (map Fin [1, 3])) (Some (map Fin [1, 2])))
               (map Fin [0, 1]) (map Fin [0, 1, 0, 1, 0, 1]) = Inr (map Fin ms)"
    and lk: "likelihood (init (map Fin [0, 1]) (Some (map Fin [1, 3])) (Some (map Fin [1, 2])))
          (map Fin [0, 1, 0, 1, 0, 1])
        = Inr (Fin (- (1 / 2) * (\<Sum>i<length [0, 1 :: real]. (([1, 3] ! i - ms ! i) / [1, 2] ! i)\<^sup>2)))"
    by blast
  have "forward_model (init (map Fin [0, 1]) (Some (map Fin [1, 3])) (Some (map Fin [1, 2])))
               (map Fin [0, 1]) (map Fin [0, 1, 0, 1, 0, 1]) = Inr (map Fin [0, 1])"
    by (simp add: forward_model_def py_max_def py_min_def peak_def fsub_def fsq_def)
  with fm have "map Fin ms = map Fin [0, 1]" by simp
  then have "ms = [0, 1]" by (auto simp: map_eq_Cons_conv)
  with lk show ?thesis
    by (simp add: lessThan_Suc power2_eq_square)
qed

text \<open>
  Claim C3. The call operator returns \<open>likelihood(theta) + prior(theta)\<close>; an exception
  of \<open>likelihood\<close> passes through it.
\<close>

theorem call_is_likelihood_plus_prior:
  "call self theta =
     (case likelihood self theta of
        Inl e \<Rightarrow> Inl e
      | Inr l \<Rightarrow> Inr (fadd l (prior self theta)))"
  by (simp add: call_def)

text \<open>
  Claim C4, as stated, says that \<open>forward_model\<close> raises an error when
  \<open>min(x) = max(x)\<close>. On the single-point array \<open>[420]\<close> it raises nothing and returns
  the array \<open>[NaN]\<close>.
\<close>

theorem forward_model_single_point_returns:
  "\<not> raises (forward_model (init (map Fin [420]) None None) (map Fin [420])
        (map Fin [1000, 2, 400, 3 / 2, 35, 25]))
   \<and> forward_model (init (map Fin [420]) None None) (map Fin [420])
        (map Fin [1000, 2, 400, 3 / 2, 35, 25]) = Inr [NaN]"
  by (simp add: raises_def forward_model_def py_max_def py_min_def fsub_def inf_times_def)

text \<open>
  Claim C4, amended. For a non-empty array \<open>x\<close> of finite values with \<open>min(x) = max(x)\<close>
  and a parameter vector with non-zero widths, \<open>forward_model\<close> raises no error: it
  returns an array of the length of \<open>x\<close> whose every element is NaN.
\<close>

theorem forward_model_degenerate:
  assumes "w1 \<noteq> 0" "w2 \<noteq> 0" "xs \<noteq> []" "Min (set xs) = Max (set xs)"
  shows "\<not> raises (forward_model (init wl inten errs) (map Fin xs) (map Fin [A1, w1, A2, w2, b0, b1]))
    \<and> forward_model (init wl inten errs) (map Fin xs) (map Fin [A1, w1, A2, w2, b0, b1])
      = Inr (replicate (length xs) NaN)"
  using forward_model_constant_x [OF assms(3,4), of "init wl inten errs" A1 w1 A2 w2 b0 b1]
  by (simp add: raises_def)

theorem forward_model_degenerate_witness:
  "forward_model (init (map Fin [420, 420]) None None) (map Fin [420, 420])
      (map Fin [1000, 2, 400, 3 / 2, 35, 25]) = Inr [NaN, NaN]"
proof -
  have h: "(2::real) \<noteq> 0" "(3 / 2 :: real) \<noteq> 0" "[420, 420 :: real] \<noteq> []"
    "Min (set [420, 420 :: real]) = Max (set [420, 420])"
    by simp_all
  show ?thesis
    using forward_model_degenerate [OF h, of "map Fin [420, 420]" None None 1000 400 35 25]
    by (simp add: numeral_2_eq_2)
qed

text \<open>
  Claim C5. On an object constructed with \<open>y\<close> and \<open>sigma\<close> absent, \<open>likelihood\<close> and the
  call operator end in an exception for every \<open>theta\<close>; for a non-empty \<open>x\<close> and a
  \<open>theta\<close> of six components with non-zero widths the exception is the TypeError of the
  subtraction from the absent \<open>y\<close>, while \<open>forward_model\<close> alone returns an array of the
  length of \<open>x\<close>.
\<close>

theorem missing_data_fails:
  "(\<exists>e. likelihood (init x None None) theta = Inl e)
   \<and> (\<exists>e. call (init x None None) theta = Inl e)
   \<and> (x \<noteq> [] \<and> length theta = 6 \<and> theta ! 1 \<noteq> Fin 0 \<and> theta ! 3 \<noteq> Fin 0 \<longrightarrow>
        likelihood (init x None None) theta = Inl TypeError
      \<and> call (init x None None) theta = Inl TypeError
      \<and> (\<exists>ys. forward_model (init x None None) x theta = Inr ys \<and> length ys = length x))"
proof -
  have lk: "likelihood (init x None None) theta =
     (case forward_model (init x None None) x theta of Inl e \<Rightarrow> Inl e | Inr fm \<Rightarrow> Inl TypeError)"
    using likelihood_no_data [of "init x None None" theta] by simp
  have 1: "\<exists>e. likelihood (init x None None) theta = Inl e"
    unfolding lk by (simp split: sum.splits)
  then have 2: "\<exists>e. call (init x None None) theta = Inl e"
    by (auto simp: call_def)
  have 3: "likelihood (init x None None) theta = Inl TypeError
      \<and> call (init x None None) theta = Inl TypeError
      \<and> (\<exists>ys. forward_model (init x None None) x theta = Inr ys \<and> length ys = length x)"
    if "x \<noteq> []" "length theta = 6" "theta ! 1 \<noteq> Fin 0" "theta ! 3 \<noteq> Fin 0"
  proof -
    from forward_model_returns [OF that(1,2)] obtain fm
      where fm: "forward_model (init x None None) x theta = Inr fm" by blast
    then have "likelihood (init x None None) theta = Inl TypeError"
      by (simp add: lk)
    then show ?thesis
      using fm forward_model_Inr_length [OF fm] by (simp add: call_def)
  qed
  from 1 2 3 show ?thesis by blast
qed

theorem missing_data_fails_witness:
  "likelihood (init (map Fin [410, 440]) None None) (map Fin [1000, 2, 400, 3 / 2, 35, 25]) = Inl TypeError
   \<and> call (init (map Fin [410, 440]) None None) (map Fin [1000, 2, 400, 3 / 2, 35, 25]) = Inl TypeError
   \<and> (\<exists>ys. forward_model (init (map Fin [410, 440]) None None) (map Fin [410, 440])
          (map Fin [1000, 2, 400, 3 / 2, 35, 25]) = Inr ys \<and> length ys = 2)"
  using missing_data_fails [of "map Fin [410, 440]" "map Fin [1000, 2, 400, 3 / 2, 35, 25]"]
  by (simp add: numeral_2_eq_2)

text \<open>
  Claim C6. For \<open>k > 0\<close> and valid data, replacing \<open>sigma\<close> by \<open>k * sigma\<close> divides the
  log-likelihood by \<open>k^2\<close>, and dividing both the residuals \<open>y - m\<close> and \<open>sigma\<close> by \<open>k\<close>
  (the observations become \<open>m + (y - m) / k\<close>) leaves it unchanged.
\<close>

theorem likelihood_sigma_scaling:
  assumes "w1 \<noteq> 0" "w2 \<noteq> 0" "xs \<noteq> []" "Min (set xs) < Max (set xs)"
    and "length ys = length xs" "length sg = length xs" "\<forall>s\<in>set sg. 0 < s"
    and "0 < k"
  shows "\<exists>L ms.
       forward_model (init (map Fin xs) (Some (map Fin ys)) (Some (map Fin sg)))
          (map Fin xs) (map Fin [A1, w1, A2, w2, b0, b1]) = Inr (map Fin ms)
     \<and> likelihood (init (map Fin xs) (Some (map Fin ys)) (Some (map Fin sg)))
          (map Fin [A1, w1, A2, w2, b0, b1]) = Inr (Fin L)
     \<and> likelihood (init (map Fin xs) (Some (map Fin ys)) (Some (map Fin (map (\<lambda>s. k * s) sg))))
          (map Fin [A1, w1, A2, w2, b0, b1]) = Inr (Fin (L / k\<^sup>2))
     \<and> likelihood (init (map Fin xs) (Some (map Fin (map2 (\<lambda>m y. m + (y - m) / k) ms ys)))
            (Some (map Fin (map (\<lambda>s. s / k) sg))))
          (map Fin [A1, w1, A2, w2, b0, b1]) = Inr (Fin L)"
proof -
  let ?th = "[A1, w1, A2, w2, b0, b1]"
  let ?ms = "spec_prediction xs ?th"
  have th: "length ?th = 6" "?th ! 1 \<noteq> 0" "?th ! 3 \<noteq> 0"
    using assms(1,2) by simp_all
  note xs = assms(3,4)
  have k: "k \<noteq> 0" using assms(8) by simp
  have nz: "\<forall>s\<in>set sg. s \<noteq> 0" using assms(7) by auto
  have nz1: "\<forall>s\<in>set (map (\<lambda>s. k * s) sg). s \<noteq> 0" using nz k by auto
  have nz2: "\<forall>s\<in>set (map (\<lambda>s. s / k) sg). s \<noteq> 0" using nz k by auto
  have len: "length ys = length ?ms" "length sg = length ?ms"
    using assms(5,6) by simp_all
  have 1: "likelihood (init (map Fin xs) (Some (map Fin ys)) (Some (map Fin sg))) (map Fin ?th)
      = Inr (Fin (- (1 / 2) * spec_chi2 ys ?ms sg))"
    by (rule likelihood_valid [OF th xs assms(5,6) nz])
  have 2: "likelihood (init (map Fin xs) (Some (map Fin ys)) (Some (map Fin (map (\<lambda>s. k * s) sg))))
         (map Fin ?th) = Inr (Fin (- (1 / 2) * spec_chi2 ys ?ms sg / k\<^sup>2))"
    using likelihood_valid [OF th xs assms(5) _ nz1] assms(6)
    by (simp add: chi2_scale_sigma [OF len(2)])
  have 3: "likelihood (init (map Fin xs) (Some (map Fin (map2 (\<lambda>m y. m + (y - m) / k) ?ms ys)))
            (Some (map Fin (map (\<lambda>s. s / k) sg)))) (map Fin ?th)
        = Inr (Fin (- (1 / 2) * spec_chi2 ys ?ms sg))"
    using likelihood_valid [OF th xs _ _ nz2, of "map2 (\<lambda>m y. m + (y - m) / k) ?ms ys"] assms(5,6)
    by (simp add: chi2_scale_both [OF len k])
  show ?thesis
    using forward_model_valid [OF th xs] 1 2 3 by blast
qed

theorem likelihood_sigma_scaling_witness:
  "likelihood (init (map Fin [0, 1]) (Some (map Fin [1, 3])) (Some (map Fin [2, 4])))
      (map Fin [0, 1, 0, 1, 0, 1]) = Inr (Fin (- 1 / 4))
   \<and> likelihood (init (map Fin [0, 1]) (Some (map Fin [1 / 2, 2])) (Some (map Fin [1 / 2, 1])))
      (map Fin [0, 1, 0, 1, 0, 1]) = Inr (Fin (- 1))"
proof -
  have h: "(1::real) \<noteq> 0" "(1::real) \<noteq> 0" "[0, 1 :: real] \<noteq> []"
    "Min (set [0, 1 :: real]) < Max (set [0, 1])"
    "length [1, 3 :: real] = length [0, 1 :: real]"
    "length [1, 2 :: real] = length [0, 1 :: real]"
    "\<forall>s\<in>set [1, 2 :: real]. 0 < s" "(0::real) < 2"
    by simp_all
  from likelihood_sigma_scaling [OF h, of 0 0 0 1]
  obtain L ms where
    fm: "forward_model (init (map Fin [0, 1]) (Some (map Fin [1, 3])) (Some (map Fin [1, 2])))
          (map Fin [0, 1]) (map Fin [0, 1, 0, 1, 0, 1]) = Inr (map Fin ms)"
    and l0: "likelihood (init (map Fin [0, 1]) (Some (map Fin [1, 3])) (Some (map Fin [1, 2])))
          (map Fin [0, 1, 0, 1, 0, 1]) = Inr (Fin L)"
    and l1: "likelihood (init (map Fin [0, 1]) (Some (map Fin [1, 3]))
            (Some (map Fin (map (\<lambda>s. 2 * s) [1, 2]))))
          (map Fin [0, 1, 0, 1, 0, 1]) = Inr (Fin (L / 2\<^sup>2))"
    and l2: "likelihood (init (map Fin [0, 1])
            (Some (map Fin (map2 (\<lambda>m y. m + (y - m) / 2) ms [1, 3])))
            (Some (map Fin (map (\<lambda>s. s / 2) [1, 2]))))
          (map Fin [0, 1, 0, 1, 0, 1]) = Inr (Fin L)"
    by blast
  from fm have "map Fin ms = map Fin [0, 1]"
    by (simp only: example_forward_model sum.inject)
  then have ms: "ms = [0, 1]" by (auto simp: map_eq_Cons_conv)
  from l0 have L: "L = - 1"
    by (simp add: example_likelihood [of 1 3, simplified])
  from l1 l2 show ?thesis
    by (simp add: ms L)
qed

text \<open>
  Claim C7. For valid \<open>x\<close> and non-zero widths, the prediction at a point where
  \<open>x[i] = min(x)\<close>, minus the two peak terms there, is \<open>b0\<close>; at a point where
  \<open>x[i] = max(x)\<close> it is \<open>b1\<close>.
\<close>

theorem background_endpoints:
  assumes "w1 \<noteq> 0" "w2 \<noteq> 0" "xs \<noteq> []" "Min (set xs) < Max (set xs)"
  shows "\<exists>ys. forward_model (init wl inten errs) (map Fin xs) (map Fin [A1, w1, A2, w2, b0, b1])
            = Inr (map Fin ys)
     \<and> length ys = length xs
     \<and> (\<forall>i<length xs.
          (xs ! i = Min (set xs) \<longrightarrow>
             ys ! i - spec_peak A1 w1 422 (xs ! i) - spec_peak A2 w2 428 (xs ! i) = b0)
        \<and> (xs ! i = Max (set xs) \<longrightarrow>
             ys ! i - spec_peak A1 w1 422 (xs ! i) - spec_peak A2 w2 428 (xs ! i) = b1))"
proof -
  let ?th = "[A1, w1, A2, w2, b0, b1]"
  have th: "length ?th = 6" "?th ! 1 \<noteq> 0" "?th ! 3 \<noteq> 0"
    using assms(1,2) by simp_all
  have ne: "Max (set xs) - Min (set xs) \<noteq> 0"
    using assms(4) by simp
  have lo: "spec_background b0 b1 (Min (set xs)) (Max (set xs)) (Min (set xs)) = b0"
    by (simp add: spec_background_def Let_def)
  define d where "d = (b1 - b0) / (Max (set xs) - Min (set xs))"
  have "d * (Max (set xs) - Min (set xs)) = b1 - b0"
    using ne by (simp add: d_def)
  then have "d * Max (set xs) + (b0 - d * Min (set xs)) = b1"
    by (simp add: algebra_simps)
  then have hi: "spec_background b0 b1 (Min (set xs)) (Max (set xs)) (Max (set xs)) = b1"
    by (simp add: spec_background_def Let_def d_def)
  show ?thesis
    using forward_model_valid [OF th assms(3,4), of wl inten errs] lo hi
    by (intro exI [of _ "spec_prediction xs ?th"]) (simp add: spec_prediction_def)
qed

theorem background_endpoints_witness:
  "\<exists>ys. forward_model (init (map Fin [410, 440]) None None) (map Fin [410, 440])
          (map Fin [1000, 2, 400, 3 / 2, 35, 25]) = Inr (map Fin ys)
     \<and> length ys = 2
     \<and> ys ! 0 - spec_peak 1000 2 422 410 - spec_peak 400 (3 / 2) 428 410 = 35
     \<and> ys ! 1 - spec_peak 1000 2 422 440 - spec_peak 400 (3 / 2) 428 440 = 25"
proof -
  have h: "(2::real) \<noteq> 0" "(3 / 2 :: real) \<noteq> 0" "[410, 440 :: real] \<noteq> []"
    "Min (set [410, 440 :: real]) < Max (set [410, 440])"
    by simp_all
  let ?xs = "[410, 440 :: real]"
  from background_endpoints [OF h, of "map Fin [410, 440]" None None 1000 400 35 25]
  obtain ys where ys: "forward_model (init (map Fin [410, 440]) None None) (map Fin [410, 440])
          (map Fin [1000, 2, 400, 3 / 2, 35, 25]) = Inr (map Fin ys)" "length ys = 2"
    and nth: "\<forall>i<length ?xs.
          (?xs ! i = Min (set ?xs) \<longrightarrow>
             ys ! i - spec_peak 1000 2 422 (?xs ! i) - spec_peak 400 (3 / 2) 428 (?xs ! i) = 35)
        \<and> (?xs ! i = Max (set ?xs) \<longrightarrow>
             ys ! i - spec_peak 1000 2 422 (?xs ! i) - spec_peak 400 (3 / 2) 428 (?xs ! i) = 25)"
    by auto
  have "ys ! 0 - spec_peak 1000 2 422 410 - spec_peak 400 (3 / 2) 428 410 = 35"
    using nth [rule_format, of 0] by simp
  moreover have "ys ! 1 - spec_peak 1000 2 422 440 - spec_peak 400 (3 / 2) 428 440 = 25"
    using nth [rule_format, of 1] by simp
  ultimately show ?thesis using ys by blast
qed

text \<open>
  Claim C8. \<open>prior\<close> returns 0 for every parameter vector.
\<close>

theorem prior_zero: "prior self theta = Fin 0"
  by (simp add: prior_def)

text \<open>
  Claim C9. Let \<open>y\<close> be the array \<open>forward_model(x, theta)\<close> for a \<open>theta\<close> with non-zero
  widths and let every error be the same positive constant \<open>s\<close>. Changing one component
  of \<open>theta\<close> by any \<open>eps\<close> that keeps the widths non-zero does not give a
  log-likelihood greater than the one at \<open>theta\<close>. When \<open>min(x) < max(x)\<close> the
  log-likelihood at \<open>theta\<close> is 0 and the other one is finite and at most 0.
\<close>

theorem noiseless_data_local_maximum:
  fixes th :: "real list"
  assumes "length th = 6" "th ! 1 \<noteq> 0" "th ! 3 \<noteq> 0" "xs \<noteq> []" "0 < s"
    and "forward_model (init (map Fin xs) None None) (map Fin xs) (map Fin th) = Inr y"
    and "i < 6" "(th[i := th ! i + eps]) ! 1 \<noteq> 0" "(th[i := th ! i + eps]) ! 3 \<noteq> 0"
  shows "\<exists>L L'.
       likelihood (init (map Fin xs) (Some y) (Some (replicate (length xs) (Fin s))))
          (map Fin th) = Inr L
     \<and> likelihood (init (map Fin xs) (Some y) (Some (replicate (length xs) (Fin s))))
          (map Fin (th[i := th ! i + eps])) = Inr L'
     \<and> \<not> fless L L'
     \<and> (Min (set xs) < Max (set xs) \<longrightarrow> L = Fin 0 \<and> (\<exists>l'. L' = Fin l' \<and> l' \<le> 0))"
proof -
  define th' where "th' = th[i := th ! i + eps]"
  define sg where "sg = replicate (length xs) s"
  let ?P = "init (map Fin xs) (Some y) (Some (replicate (length xs) (Fin s)))"
  have th: "length th = 6" "th ! 1 \<noteq> 0" "th ! 3 \<noteq> 0"
    by fact+
  have th': "length th' = 6" "th' ! 1 \<noteq> 0" "th' ! 3 \<noteq> 0"
    using assms(1,8,9) by (simp_all add: th'_def)
  have sg: "map Fin sg = replicate (length xs) (Fin s)" "length sg = length xs"
    "\<forall>s\<in>set sg. s \<noteq> 0"
    using assms(5) by (auto simp: sg_def)
  have "Min (set xs) \<le> Max (set xs)"
    using assms(4) by (meson List.finite_set Max_ge Min_le order_trans hd_in_set)
  then consider (proper) "Min (set xs) < Max (set xs)" | (flat) "Min (set xs) = Max (set xs)"
    by fastforce
  then show ?thesis
  proof cases
    case proper
    let ?ms = "spec_prediction xs th"
    have y: "y = map Fin ?ms"
      using assms(6) forward_model_valid [OF th assms(4) proper, of "map Fin xs" None None] by simp
    have 1: "likelihood ?P (map Fin th) = Inr (Fin (- (1 / 2) * spec_chi2 ?ms ?ms sg))"
      using likelihood_valid [OF th assms(4) proper _ sg(2,3), of ?ms] by (simp add: y sg(1))
    have 2: "likelihood ?P (map Fin th')
        = Inr (Fin (- (1 / 2) * spec_chi2 ?ms (spec_prediction xs th') sg))"
      using likelihood_valid [OF th' assms(4) proper _ sg(2,3), of ?ms] by (simp add: y sg(1))
    have z: "spec_chi2 ?ms ?ms sg = 0"
      using chi2_zero_iff [of ?ms ?ms sg] sg by simp
    have le: "- (1 / 2) * spec_chi2 ?ms (spec_prediction xs th') sg \<le> 0"
      using chi2_nonneg [of ?ms "spec_prediction xs th'" sg] by simp
    show ?thesis
      unfolding th'_def [symmetric] 1 2 z using le by simp
  next
    case flat
    from th(1) obtain A1 w1 A2 w2 b0 b1 where e: "th = [A1, w1, A2, w2, b0, b1]"
      by (rule length6E)
    from th'(1) obtain A1' w1' A2' w2' b0' b1' where e': "th' = [A1', w1', A2', w2', b0', b1']"
      by (rule length6E)
    have n: "0 < length xs" using assms(4) by simp
    have y: "y = replicate (length xs) NaN"
      using assms(6) forward_model_constant_x [OF assms(4) flat] by (simp add: e)
    have 1: "likelihood ?P (map Fin th) = Inr NaN"
      by (rule likelihood_NaN [where n = "length xs" and u = y
            and v = "replicate (length xs) (Fin s)"])
         (simp_all add: assms(4) y e forward_model_constant_x [OF assms(4) flat, simplified])
    have 2: "likelihood ?P (map Fin th') = Inr NaN"
      by (rule likelihood_NaN [where n = "length xs" and u = y
            and v = "replicate (length xs) (Fin s)"])
         (simp_all add: assms(4) y e' forward_model_constant_x [OF assms(4) flat, simplified])
    show ?thesis
      unfolding th'_def [symmetric] 1 2 using flat by simp
  qed
qed

theorem noiseless_data_local_maximum_witness:
  "\<exists>L'. likelihood (init (map Fin [0, 1]) (Some (map Fin [0, 1])) (Some [Fin 1, Fin 1]))
          (map Fin [0, 1, 0, 1, 0, 1]) = Inr (Fin 0)
     \<and> likelihood (init (map Fin [0, 1]) (Some (map Fin [0, 1])) (Some [Fin 1, Fin 1]))
          (map Fin [0, 1, 0, 1, 0, 2]) = Inr (Fin L')
     \<and> L' \<le> 0"
proof -
  have h: "length [0, 1, 0, 1, 0, 1 :: real] = 6"
    "[0, 1, 0, 1, 0, 1 :: real] ! 1 \<noteq> 0" "[0, 1, 0, 1, 0, 1 :: real] ! 3 \<noteq> 0"
    "[0, 1 :: real] \<noteq> []" "(0::real) < 1"
    "forward_model (init (map Fin [0, 1]) None None) (map Fin [0, 1])
        (map Fin [0, 1, 0, 1, 0, 1]) = Inr (map Fin [0, 1])"
    "(5::nat) < 6"
    "([0, 1, 0, 1, 0, 1 :: real][5 := [0, 1, 0, 1, 0, 1] ! 5 + 1]) ! 1 \<noteq> 0"
    "([0, 1, 0, 1, 0, 1 :: real][5 := [0, 1, 0, 1, 0, 1] ! 5 + 1]) ! 3 \<noteq> 0"
    using example_forward_model [of "map Fin [0, 1]" None None 1] by simp_all
  have m: "Min (set [0, 1 :: real]) < Max (set [0, 1])" by simp
  from noiseless_data_local_maximum [OF h] m show ?thesis
    by (auto simp: numeral_2_eq_2)
qed

text \<open>
  Claim C10. For valid data (positive errors, \<open>min(x) < max(x)\<close>, equal lengths) and
  non-zero widths, \<open>likelihood\<close> and the call operator return the same finite value,
  which is at most 0, and is 0 exactly when \<open>forward_model\<close> returns \<open>y\<close> itself.
\<close>

theorem likelihood_upper_bound:
  assumes "w1 \<noteq> 0" "w2 \<noteq> 0" "xs \<noteq> []" "Min (set xs) < Max (set xs)"
    and "length ys = length xs" "length sg = length xs" "\<forall>s\<in>set sg. 0 < s"
  shows "\<exists>L. likelihood (init (map Fin xs) (Some (map Fin ys)) (Some (map Fin sg)))
              (map Fin [A1, w1, A2, w2, b0, b1]) = Inr (Fin L)
     \<and> call (init (map Fin xs) (Some (map Fin ys)) (Some (map Fin sg)))
              (map Fin [A1, w1, A2, w2, b0, b1]) = Inr (Fin L)
     \<and> L \<le> 0
     \<and> (L = 0 \<longleftrightarrow>
          forward_model (init (map Fin xs) (Some (map Fin ys)) (Some (map Fin sg)))
              (map Fin xs) (map Fin [A1, w1, A2, w2, b0, b1]) = Inr (map Fin ys))"
proof -
  let ?th = "[A1, w1, A2, w2, b0, b1]"
  let ?ms = "spec_prediction xs ?th"
  let ?L = "- (1 / 2) * spec_chi2 ys ?ms sg"
  have th: "length ?th = 6" "?th ! 1 \<noteq> 0" "?th ! 3 \<noteq> 0"
    using assms(1,2) by simp_all
  note xs = assms(3,4)
  have nz: "\<forall>s\<in>set sg. s \<noteq> 0" using assms(7) by auto
  have len: "length ys = length ?ms" "length sg = length ?ms"
    using assms(5,6) by simp_all
  have lk: "likelihood (init (map Fin xs) (Some (map Fin ys)) (Some (map Fin sg))) (map Fin ?th)
      = Inr (Fin ?L)"
    by (rule likelihood_valid [OF th xs assms(5,6) nz])
  then have cl: "call (init (map Fin xs) (Some (map Fin ys)) (Some (map Fin sg))) (map Fin ?th)
      = Inr (Fin ?L)"
    by (simp add: call_def prior_def)
  have le: "?L \<le> 0"
    using chi2_nonneg [of ys ?ms sg] by simp
  have "map Fin ?ms = map Fin ys \<longleftrightarrow> ?ms = ys"
    by (rule inj_map_eq_map) (simp add: inj_def)
  then have eq: "?L = 0 \<longleftrightarrow>
      forward_model (init (map Fin xs) (Some (map Fin ys)) (Some (map Fin sg)))
        (map Fin xs) (map Fin ?th) = Inr (map Fin ys)"
    unfolding forward_model_valid [OF th xs] using chi2_zero_iff [OF len nz] by auto
  from lk cl le eq show ?thesis by blast
qed

theorem likelihood_upper_bound_witness:
  "\<exists>L. likelihood (init (map Fin [0, 1]) (Some (map Fin [1, 3])) (Some (map Fin [1, 2])))
              (map Fin [0, 1, 0, 1, 0, 1]) = Inr (Fin L)
     \<and> call (init (map Fin [0, 1]) (Some (map Fin [1, 3])) (Some (map Fin [1, 2])))
              (map Fin [0, 1, 0, 1, 0, 1]) = Inr (Fin L)
     \<and> L \<le> 0"
proof -
  have h: "(1::real) \<noteq> 0" "(1::real) \<noteq> 0" "[0, 1 :: real] \<noteq> []"
    "Min (set [0, 1 :: real]) < Max (set [0, 1])"
    "length [1, 3 :: real] = length [0, 1 :: real]"
    "length [1, 2 :: real] = length [0, 1 :: real]"
    "\<forall>s\<in>set [1, 2 :: real]. 0 < s"
    by simp_all
  from likelihood_upper_bound [OF h, of 0 0 0 1] show ?thesis
    by auto
qed

end
